theory Spec2Isabelle
  imports Complex_Main
begin

unbundle bit_operations_syntax

section \<open>Python values and exceptions\<close>

text \<open>
  The values that \<^verbatim>\<open>response.json()\<close> can decode and that the adapter caches in its
  attributes. \<open>PNone\<close> is Python's \<^verbatim>\<open>None\<close> (JSON \<^verbatim>\<open>null\<close>). A dict is kept as an
  association list whose lookup takes the first binding of a key. A float is the
  rational number that the binary64 value denotes (no NaN, no infinity).
\<close>

datatype pyval =
    PNone
  | PBool bool
  | PInt int
  | PFloat rat
  | PStr string
  | PList "pyval list"
  | PDict "(string \<times> pyval) list"

text \<open>
  The classes of the exceptions that can be raised in this module. \<open>HTTPError\<close>,
  \<open>ConnectionError\<close> and \<open>Timeout\<close> are subclasses of the HTTP library's
  \<open>RequestException\<close>; the constructor \<open>RequestException\<close> stands for every
  other member of that hierarchy. The remaining ones are Python built-ins.
\<close>

datatype exn =
    HTTPError
  | ConnectionError
  | Timeout
  | RequestException
  | ValueError
  | AttributeError
  | TypeError
  | UnboundLocalError
  | OverflowError

fun is_HTTPError :: "exn \<Rightarrow> bool" where
  "is_HTTPError HTTPError = True"
| "is_HTTPError _ = False"

fun is_RequestException :: "exn \<Rightarrow> bool" where
  "is_RequestException HTTPError = True"
| "is_RequestException ConnectionError = True"
| "is_RequestException Timeout = True"
| "is_RequestException RequestException = True"
| "is_RequestException _ = False"

text \<open>\<^verbatim>\<open>d.get(key, default)\<close> on a dict.\<close>

definition dict_get :: "(string \<times> pyval) list \<Rightarrow> string \<Rightarrow> pyval \<Rightarrow> pyval" where
  "dict_get d k dflt = (case map_of d k of None \<Rightarrow> dflt | Some v \<Rightarrow> v)"

section \<open>Binary64 arithmetic\<close>

text \<open>
  Python floats are IEEE binary64 numbers and every arithmetic operation rounds its exact
  result to the nearest one, ties to the even significand. \<open>fl\<close> is that rounding on
  the rationals: the significand has 53 bits and the exponent of the last place is never
  below \<open>-1074\<close> (the subnormal range). A result of magnitude \<open>2 ^ 1024\<close> or more is
  an overflow.
\<close>

function bitlen :: "int \<Rightarrow> int" where
  "bitlen n = (if n \<le> 0 then 0 else 1 + bitlen (n div 2))"
  by pat_completeness auto
termination
  by (relation "measure nat") auto

declare bitlen.simps [simp del]

definition pow2 :: "int \<Rightarrow> rat" where
  "pow2 e = (if 0 \<le> e then 2 ^ nat e else 1 / 2 ^ nat (- e))"

definition round_half_even :: "rat \<Rightarrow> int" where
  "round_half_even x =
     (let f = \<lfloor>x\<rfloor>; d = x - of_int f
      in if d < 1 / 2 then f
         else if 1 / 2 < d then f + 1
         else if even f then f else f + 1)"

text \<open>\<open>ilog2 x\<close> is the integer \<open>k\<close> with \<open>2 ^ k \<le> x < 2 ^ (k + 1)\<close>, for \<open>0 < x\<close>.\<close>

definition ilog2 :: "rat \<Rightarrow> int" where
  "ilog2 x =
     (let (p, q) = quotient_of x;
          k = bitlen p - bitlen q
      in if pow2 k \<le> x then k else k - 1)"

definition fl :: "rat \<Rightarrow> rat" where
  "fl x =
     (if x = 0 then 0
      else let e = max (ilog2 \<bar>x\<bar> - 52) (- 1074)
           in of_int (round_half_even (x / pow2 e)) * pow2 e)"

definition overflows :: "rat \<Rightarrow> bool" where
  "overflows x \<longleftrightarrow> 2 ^ 1024 \<le> \<bar>x\<bar>"

text \<open>\<^verbatim>\<open>int(x)\<close> on a finite float: truncation toward zero.\<close>

definition trunc :: "rat \<Rightarrow> int" where
  "trunc x = (if 0 \<le> x then \<lfloor>x\<rfloor> else \<lceil>x\<rceil>)"


text \<open>
  A Python \<^verbatim>\<open>int\<close> that meets a float in an arithmetic operation is converted first:
  rounded to binary64, or \<^verbatim>\<open>OverflowError\<close> when it is too large.
\<close>

definition int_to_float :: "int \<Rightarrow> exn + rat" where
  "int_to_float i =
     (let x = fl (of_int i) in if overflows x then Inl OverflowError else Inr x)"

section \<open>Constants of the host\<close>

text \<open>
  Modelled from the spec: the module imports \<^verbatim>\<open>STATE_IDLE\<close>, \<^verbatim>\<open>STATE_PLAYING\<close> and
  \<^verbatim>\<open>STATE_PAUSED\<close> from \<^verbatim>\<open>homeassistant.const\<close>, which is not part of the sources
  at hand. The specification names the normalized states \<^verbatim>\<open>idle\<close>, \<^verbatim>\<open>playing\<close> and
  \<^verbatim>\<open>paused\<close>.
\<close>

definition STATE_IDLE :: string where
  "STATE_IDLE = ''idle''"

definition STATE_PLAYING :: string where
  "STATE_PLAYING = ''playing''"

definition STATE_PAUSED :: string where
  "STATE_PAUSED = ''paused''"

text \<open>
  The capability flags \<^verbatim>\<open>SUPPORT_PAUSE\<close>, \<^verbatim>\<open>SUPPORT_SEEK\<close>, ... are imported from
  \<^verbatim>\<open>homeassistant.components.media_player\<close>, which is not part of the sources at hand
  either; their values are parameters of the model, one field each.
\<close>

record support_flags =
  SUPPORT_PAUSE :: int
  SUPPORT_SEEK :: int
  SUPPORT_VOLUME_SET :: int
  SUPPORT_VOLUME_MUTE :: int
  SUPPORT_PREVIOUS_TRACK :: int
  SUPPORT_NEXT_TRACK :: int

definition SUPPORT_ITUNES :: "support_flags \<Rightarrow> int" where
  "SUPPORT_ITUNES F =
     SUPPORT_PAUSE F OR SUPPORT_VOLUME_SET F OR SUPPORT_VOLUME_MUTE F OR
     SUPPORT_PREVIOUS_TRACK F OR SUPPORT_NEXT_TRACK F OR SUPPORT_SEEK F"

section \<open>The HTTP library\<close>

text \<open>
  The three entry points of the HTTP library that the client calls, with their arguments:
  \<^verbatim>\<open>requests.get(url)\<close>, \<^verbatim>\<open>requests.put(url, params)\<close> and
  \<^verbatim>\<open>requests.delete(url)\<close>.
\<close>

datatype lib_call =
    requests_get string
  | requests_put string pyval
  | requests_delete string

text \<open>
  What a call can do: raise, or return a response object. Of a response the module
  uses only the method \<^verbatim>\<open>json()\<close>, which raises or returns the decoded body; the status
  code is carried along, the module never reads it.
\<close>

record response =
  status_code :: nat
  json :: "exn + pyval"

datatype outcome = Raises exn | Returns response

text \<open>
  The world outside: \<open>respond w n c\<close> is the outcome of the call \<open>c\<close> when it is the
  \<open>n\<close>-th call made, and \<open>sent w\<close> lists the calls made so far.
\<close>

record world =
  respond :: "nat \<Rightarrow> lib_call \<Rightarrow> outcome"
  sent :: "lib_call list"

definition perform :: "world \<Rightarrow> lib_call \<Rightarrow> world \<times> outcome" where
  "perform w c = (w\<lparr>sent := sent w @ [c]\<rparr>, respond w (length (sent w)) c)"

section \<open>The client: class Itunes\<close>

record Itunes =
  host :: string
  port :: int

text \<open>\<^verbatim>\<open>str(n)\<close> for an integer: its decimal digits, with a minus sign when negative.\<close>

definition digit_char :: "int \<Rightarrow> char" where
  "digit_char d = char_of (48 + d)"

function digits :: "int \<Rightarrow> string" where
  "digits n = (if n < 10 then [digit_char n] else digits (n div 10) @ [digit_char (n mod 10)])"
  by pat_completeness auto
termination
  by (relation "measure nat") auto

declare digits.simps [simp del]

definition str :: "int \<Rightarrow> string" where
  "str i = (if i < 0 then CHR ''-'' # digits (- i) else digits i)"

definition base_url :: "Itunes \<Rightarrow> string" where
  "base_url self = host self @ '':'' @ str (port self)"

definition error_payload :: pyval where
  "error_payload = PDict [(''player_state'', PStr ''error'')]"

definition offline_payload :: pyval where
  "offline_payload = PDict [(''player_state'', PStr ''offline'')]"

text \<open>
  The two \<^verbatim>\<open>except\<close> clauses of \<^verbatim>\<open>_request\<close>, in their order; an exception that
  neither clause matches leaves the function.
\<close>

definition handle :: "exn \<Rightarrow> exn + pyval" where
  "handle e =
     (if is_HTTPError e then Inr error_payload
      else if is_RequestException e then Inr offline_payload
      else Inl e)"

text \<open>
  The \<^verbatim>\<open>if\<close>/\<^verbatim>\<open>elif\<close> chain on the method: \<^verbatim>\<open>POST\<close> calls \<^verbatim>\<open>requests.put\<close> as
  well, and for any other method no call is made and \<^verbatim>\<open>response\<close> stays unbound.
\<close>

definition dispatch :: "string \<Rightarrow> string \<Rightarrow> pyval \<Rightarrow> lib_call option" where
  "dispatch method url params =
     (if method = ''GET'' then Some (requests_get url)
      else if method = ''POST'' then Some (requests_put url params)
      else if method = ''PUT'' then Some (requests_put url params)
      else if method = ''DELETE'' then Some (requests_delete url)
      else None)"

definition request :: "world \<Rightarrow> Itunes \<Rightarrow> string \<Rightarrow> string \<Rightarrow> pyval \<Rightarrow> world \<times> (exn + pyval)" where
  "request w self method path params =
     (let url = base_url self @ path
      in case dispatch method url params of
           None \<Rightarrow> (w, handle UnboundLocalError)
         | Some c \<Rightarrow>
             (case perform w c of
                (w', Raises e) \<Rightarrow> (w', handle e)
              | (w', Returns r) \<Rightarrow>
                  (case json r of
                     Inl e \<Rightarrow> (w', handle e)
                   | Inr body \<Rightarrow> (w', Inr body))))"

definition command :: "world \<Rightarrow> Itunes \<Rightarrow> string \<Rightarrow> world \<times> (exn + pyval)" where
  "command w self named_command = request w self ''PUT'' (''/'' @ named_command) PNone"

definition now_playing :: "world \<Rightarrow> Itunes \<Rightarrow> world \<times> (exn + pyval)" where
  "now_playing w self = request w self ''GET'' ''/now_playing'' PNone"

definition set_volume :: "world \<Rightarrow> Itunes \<Rightarrow> pyval \<Rightarrow> world \<times> (exn + pyval)" where
  "set_volume w self level = request w self ''PUT'' ''/volume'' (PDict [(''level'', level)])"

definition set_muted :: "world \<Rightarrow> Itunes \<Rightarrow> pyval \<Rightarrow> world \<times> (exn + pyval)" where
  "set_muted w self muted = request w self ''PUT'' ''/mute'' (PDict [(''muted'', muted)])"

definition play :: "world \<Rightarrow> Itunes \<Rightarrow> world \<times> (exn + pyval)" where
  "play w self = command w self ''play''"

definition pause :: "world \<Rightarrow> Itunes \<Rightarrow> world \<times> (exn + pyval)" where
  "pause w self = command w self ''pause''"

definition next_track :: "world \<Rightarrow> Itunes \<Rightarrow> world \<times> (exn + pyval)" where
  "next_track w self = command w self ''next''"

definition previous :: "world \<Rightarrow> Itunes \<Rightarrow> world \<times> (exn + pyval)" where
  "previous w self = command w self ''previous''"

definition artwork_url :: "Itunes \<Rightarrow> string" where
  "artwork_url self = base_url self @ ''/artwork''"

section \<open>The adapter: class ItunesDevice\<close>

text \<open>
  The attributes of the adapter. \<open>dev_name\<close>, \<open>dev_host\<close> and \<open>dev_port\<close> are the
  attributes \<^verbatim>\<open>_name\<close>, \<^verbatim>\<open>_host\<close> and \<^verbatim>\<open>_port\<close>; the other eight are the cached
  state.
\<close>

record ItunesDevice =
  dev_name :: string
  dev_host :: string
  dev_port :: int
  client :: Itunes
  current_volume :: pyval
  muted :: pyval
  current_title :: pyval
  current_album :: pyval
  current_artist :: pyval
  current_playlist :: pyval
  content_id :: pyval
  player_state :: pyval

text \<open>
  \<^verbatim>\<open>update_state\<close> calls \<^verbatim>\<open>state_hash.get\<close> eight times. Only a dict has that method:
  on any other value the first call raises \<^verbatim>\<open>AttributeError\<close>, before any attribute
  is assigned.
\<close>

definition update_state :: "ItunesDevice \<Rightarrow> pyval \<Rightarrow> exn + ItunesDevice" where
  "update_state self state_hash =
     (case state_hash of
        PDict d \<Rightarrow>
          Inr (self\<lparr>player_state := dict_get d ''player_state'' PNone,
                    current_volume := dict_get d ''volume'' (PInt 0),
                    muted := dict_get d ''muted'' PNone,
                    current_title := dict_get d ''name'' PNone,
                    current_album := dict_get d ''album'' PNone,
                    current_artist := dict_get d ''artist'' PNone,
                    current_playlist := dict_get d ''playlist'' PNone,
                    content_id := dict_get d ''id'' PNone\<rparr>)
      | _ \<Rightarrow> Inl AttributeError)"

definition name :: "ItunesDevice \<Rightarrow> string" where
  "name self = dev_name self"

definition state :: "ItunesDevice \<Rightarrow> string" where
  "state self =
     (if player_state self = PStr ''offline'' \<or> player_state self = PNone then ''offline''
      else if player_state self = PStr ''error'' then ''error''
      else if player_state self = PStr ''stopped'' then STATE_IDLE
      else if player_state self = PStr ''paused'' then STATE_PAUSED
      else STATE_PLAYING)"

text \<open>
  Every operation of the adapter calls the client once and hands the result to
  \<^verbatim>\<open>update_state\<close>; an exception that leaves the client leaves the operation.
\<close>

definition merge :: "ItunesDevice \<Rightarrow> world \<times> (exn + pyval) \<Rightarrow> world \<times> (exn + ItunesDevice)" where
  "merge self res =
     (case res of
        (w', Inl e) \<Rightarrow> (w', Inl e)
      | (w', Inr response) \<Rightarrow> (w', update_state self response))"

definition update :: "world \<Rightarrow> ItunesDevice \<Rightarrow> world \<times> (exn + ItunesDevice)" where
  "update w self = merge self (now_playing w (client self))"

definition is_volume_muted :: "ItunesDevice \<Rightarrow> pyval" where
  "is_volume_muted self = muted self"

text \<open>
  \<^verbatim>\<open>self.current_volume/100.0\<close>: the division is defined for a float and for an integer
  (a bool is an integer), and raises \<^verbatim>\<open>TypeError\<close> for every other value.
\<close>

definition volume_level :: "ItunesDevice \<Rightarrow> exn + rat" where
  "volume_level self =
     (case current_volume self of
        PFloat x \<Rightarrow> Inr (fl (x / 100))
      | PInt i \<Rightarrow>
          (case int_to_float i of Inl e \<Rightarrow> Inl e | Inr x \<Rightarrow> Inr (fl (x / 100)))
      | PBool b \<Rightarrow> Inr (fl ((if b then 1 else 0) / 100))
      | _ \<Rightarrow> Inl TypeError)"

definition media_content_id :: "ItunesDevice \<Rightarrow> pyval" where
  "media_content_id self = content_id self"

definition placeholder_url :: string where
  "placeholder_url =
     ''https://cloud.githubusercontent.com/assets/260/9829355'' @
     ''/33fab972-58cf-11e5-8ea2-2ca74bdaae40.png''"

definition media_image_url :: "ItunesDevice \<Rightarrow> string" where
  "media_image_url self =
     (if player_state self \<in> set [PStr STATE_PLAYING, PStr STATE_IDLE, PStr STATE_PAUSED] \<and>
         current_title self \<noteq> PNone
      then artwork_url (client self)
      else placeholder_url)"

definition media_title :: "ItunesDevice \<Rightarrow> pyval" where
  "media_title self = current_title self"

definition media_artist :: "ItunesDevice \<Rightarrow> pyval" where
  "media_artist self = current_artist self"

definition media_album_name :: "ItunesDevice \<Rightarrow> pyval" where
  "media_album_name self = current_album self"

definition supported_media_commands :: "support_flags \<Rightarrow> ItunesDevice \<Rightarrow> int" where
  "supported_media_commands F self = SUPPORT_ITUNES F"

text \<open>
  \<^verbatim>\<open>int(volume * 100)\<close> for a float \<^verbatim>\<open>volume\<close>: the product is rounded to binary64,
  \<^verbatim>\<open>int\<close> truncates it toward zero and raises \<^verbatim>\<open>OverflowError\<close> on an infinity.
\<close>

definition volume_percent :: "rat \<Rightarrow> exn + int" where
  "volume_percent volume =
     (let p = fl (volume * 100) in if overflows p then Inl OverflowError else Inr (trunc p))"

definition set_volume_level :: "world \<Rightarrow> ItunesDevice \<Rightarrow> rat \<Rightarrow> world \<times> (exn + ItunesDevice)" where
  "set_volume_level w self volume =
     (case volume_percent volume of
        Inl e \<Rightarrow> (w, Inl e)
      | Inr level \<Rightarrow> merge self (set_volume w (client self) (PInt level)))"

definition mute_volume :: "world \<Rightarrow> ItunesDevice \<Rightarrow> pyval \<Rightarrow> world \<times> (exn + ItunesDevice)" where
  "mute_volume w self mute = merge self (set_muted w (client self) mute)"

definition media_play :: "world \<Rightarrow> ItunesDevice \<Rightarrow> world \<times> (exn + ItunesDevice)" where
  "media_play w self = merge self (play w (client self))"

definition media_pause :: "world \<Rightarrow> ItunesDevice \<Rightarrow> world \<times> (exn + ItunesDevice)" where
  "media_pause w self = merge self (pause w (client self))"

definition media_next_track :: "world \<Rightarrow> ItunesDevice \<Rightarrow> world \<times> (exn + ItunesDevice)" where
  "media_next_track w self = merge self (next_track w (client self))"

definition media_previous_track :: "world \<Rightarrow> ItunesDevice \<Rightarrow> world \<times> (exn + ItunesDevice)" where
  "media_previous_track w self = merge self (previous w (client self))"

text \<open>
  \<^verbatim>\<open>__init__\<close>: every cached attribute starts as \<^verbatim>\<open>None\<close>, then \<^verbatim>\<open>update\<close> runs. When
  \<^verbatim>\<open>update\<close> raises, so does the constructor and no adapter exists.
\<close>

definition fresh :: "string \<Rightarrow> string \<Rightarrow> int \<Rightarrow> ItunesDevice" where
  "fresh nm h p =
     \<lparr>dev_name = nm, dev_host = h, dev_port = p,
      client = \<lparr>host = h, port = p\<rparr>,
      current_volume = PNone, muted = PNone, current_title = PNone,
      current_album = PNone, current_artist = PNone, current_playlist = PNone,
      content_id = PNone, player_state = PNone\<rparr>"

definition init :: "world \<Rightarrow> string \<Rightarrow> string \<Rightarrow> int \<Rightarrow> world \<times> (exn + ItunesDevice)" where
  "init w nm h p = update w (fresh nm h p)"

text \<open>
  The calls that the host makes on an adapter, and a run of them. A call that raises
  leaves the adapter as it was (the exception goes to the host) and the run goes on.
\<close>

datatype host_call =
    Update
  | SetVolumeLevel rat
  | MuteVolume pyval
  | MediaPlay
  | MediaPause
  | MediaNextTrack
  | MediaPreviousTrack

fun invoke :: "world \<Rightarrow> ItunesDevice \<Rightarrow> host_call \<Rightarrow> world \<times> (exn + ItunesDevice)" where
  "invoke w self Update = update w self"
| "invoke w self (SetVolumeLevel v) = set_volume_level w self v"
| "invoke w self (MuteVolume m) = mute_volume w self m"
| "invoke w self MediaPlay = media_play w self"
| "invoke w self MediaPause = media_pause w self"
| "invoke w self MediaNextTrack = media_next_track w self"
| "invoke w self MediaPreviousTrack = media_previous_track w self"

fun run :: "world \<Rightarrow> ItunesDevice \<Rightarrow> host_call list \<Rightarrow> world \<times> ItunesDevice" where
  "run w self [] = (w, self)"
| "run w self (c # cs) =
     (case invoke w self c of
        (w', Inl e) \<Rightarrow> run w' self cs
      | (w', Inr self') \<Rightarrow> run w' self' cs)"

section \<open>Classes of outcomes\<close>

text \<open>
  An outcome is \<open>caught\<close> when the client and the adapter both get through it: the
  library call, or \<^verbatim>\<open>json()\<close> after it, raises an exception of the
  \<open>RequestException\<close> hierarchy, or the body decodes to a JSON object. It has \<open>failed\<close>
  when an exception was raised at all.
\<close>

definition caught :: "outcome \<Rightarrow> bool" where
  "caught out =
     (case out of
        Raises e \<Rightarrow> is_RequestException e
      | Returns r \<Rightarrow>
          (case json r of
             Inl e \<Rightarrow> is_RequestException e
           | Inr (PDict d) \<Rightarrow> True
           | Inr _ \<Rightarrow> False))"

definition failed :: "outcome \<Rightarrow> bool" where
  "failed out = (case out of Raises e \<Rightarrow> True | Returns r \<Rightarrow> isl (json r))"

text \<open>
  The values that \<^verbatim>\<open>/100.0\<close> accepts: a float, a bool, and an integer within the range
  of binary64.
\<close>

definition divisible :: "pyval \<Rightarrow> bool" where
  "divisible v =
     (case v of
        PFloat x \<Rightarrow> True
      | PBool b \<Rightarrow> True
      | PInt i \<Rightarrow> \<not> overflows (fl (of_int i))
      | _ \<Rightarrow> False)"

text \<open>A payload whose \<^verbatim>\<open>volume\<close> key is absent or holds such a value.\<close>

definition volume_ok :: "pyval \<Rightarrow> bool" where
  "volume_ok payload =
     (case payload of
        PDict d \<Rightarrow> (case map_of d ''volume'' of None \<Rightarrow> True | Some v \<Rightarrow> divisible v)
      | _ \<Rightarrow> True)"

definition outcome_volume_ok :: "outcome \<Rightarrow> bool" where
  "outcome_volume_ok out =
     (case out of
        Raises e \<Rightarrow> True
      | Returns r \<Rightarrow> (case json r of Inl e \<Rightarrow> True | Inr body \<Rightarrow> volume_ok body))"

section \<open>Examples\<close>

text \<open>The adapter of the module's own configuration example, before its first update.\<close>

definition example_device :: ItunesDevice where
  "example_device = fresh ''iTunes'' ''http://192.168.1.16'' 8181"

text \<open>A world in which every call has the same outcome.\<close>

definition always :: "outcome \<Rightarrow> world" where
  "always out = \<lparr>respond = (\<lambda>n c. out), sent = []\<rparr>"

definition ok_response :: "pyval \<Rightarrow> outcome" where
  "ok_response body = Returns \<lparr>status_code = 200, json = Inr body\<rparr>"

section \<open>The state property\<close>

text \<open>
  C1. For every cached \<^verbatim>\<open>player_state\<close> value the \<^verbatim>\<open>state\<close> property follows the
  five-way cascade: \<^verbatim>\<open>offline\<close> or absent gives \<^verbatim>\<open>offline\<close>; else \<^verbatim>\<open>error\<close> gives
  \<^verbatim>\<open>error\<close>; else \<^verbatim>\<open>stopped\<close> gives \<^verbatim>\<open>idle\<close>; else \<^verbatim>\<open>paused\<close> gives \<^verbatim>\<open>paused\<close>;
  and every other value, \<^verbatim>\<open>playing\<close> and any unrecognized one included, gives
  \<^verbatim>\<open>playing\<close>.
\<close>

theorem state_cascade:
  "(player_state self = PStr ''offline'' \<or> player_state self = PNone \<longrightarrow> state self = ''offline'') \<and>
   (player_state self = PStr ''error'' \<longrightarrow> state self = ''error'') \<and>
   (player_state self = PStr ''stopped'' \<longrightarrow> state self = ''idle'') \<and>
   (player_state self = PStr ''paused'' \<longrightarrow> state self = ''paused'') \<and>
   (player_state self \<notin> {PNone, PStr ''offline'', PStr ''error'', PStr ''stopped'', PStr ''paused''}
      \<longrightarrow> state self = ''playing'')"
  by (simp add: state_def STATE_IDLE_def STATE_PAUSED_def STATE_PLAYING_def)

theorem state_cascade_witness:
  "state (example_device\<lparr>player_state := PStr ''offline''\<rparr>) = ''offline'' \<and>
   state example_device = ''offline'' \<and>
   state (example_device\<lparr>player_state := PStr ''error''\<rparr>) = ''error'' \<and>
   state (example_device\<lparr>player_state := PStr ''stopped''\<rparr>) = ''idle'' \<and>
   state (example_device\<lparr>player_state := PStr ''paused''\<rparr>) = ''paused'' \<and>
   state (example_device\<lparr>player_state := PStr ''playing''\<rparr>) = ''playing'' \<and>
   state (example_device\<lparr>player_state := PStr ''buffering''\<rparr>) = ''playing'' \<and>
   state (example_device\<lparr>player_state := PStr []\<rparr>) = ''playing'' \<and>
   state (example_device\<lparr>player_state := PInt 7\<rparr>) = ''playing''"
  using state_cascade [of "example_device\<lparr>player_state := PStr ''offline''\<rparr>"]
    state_cascade [of example_device]
    state_cascade [of "example_device\<lparr>player_state := PStr ''error''\<rparr>"]
    state_cascade [of "example_device\<lparr>player_state := PStr ''stopped''\<rparr>"]
    state_cascade [of "example_device\<lparr>player_state := PStr ''paused''\<rparr>"]
    state_cascade [of "example_device\<lparr>player_state := PStr ''playing''\<rparr>"]
    state_cascade [of "example_device\<lparr>player_state := PStr ''buffering''\<rparr>"]
    state_cascade [of "example_device\<lparr>player_state := PStr []\<rparr>"]
    state_cascade [of "example_device\<lparr>player_state := PInt 7\<rparr>"]
  by (simp add: example_device_def fresh_def)

section \<open>The capability mask\<close>

text \<open>
  C8. \<^verbatim>\<open>supported_media_commands\<close> is the constant mask \<^verbatim>\<open>SUPPORT_ITUNES\<close>: a bit is set
  in it exactly when it is set in one of the six flags pause, volume-set, mute,
  previous-track, next-track and seek, and its value is the same for every cached state.
\<close>

theorem supported_media_commands_mask:
  "(bit (supported_media_commands F self) n \<longleftrightarrow>
      bit (SUPPORT_PAUSE F) n \<or> bit (SUPPORT_VOLUME_SET F) n \<or> bit (SUPPORT_VOLUME_MUTE F) n \<or>
      bit (SUPPORT_PREVIOUS_TRACK F) n \<or> bit (SUPPORT_NEXT_TRACK F) n \<or> bit (SUPPORT_SEEK F) n) \<and>
   supported_media_commands F self = supported_media_commands F other \<and>
   supported_media_commands F self = SUPPORT_ITUNES F"
  by (simp add: supported_media_commands_def SUPPORT_ITUNES_def bit_or_iff)

section \<open>The artwork URL\<close>



end
